theory Spec2Isabelle
  imports Main
begin

section \<open>JavaScript values\<close>

text \<open>
  The values that travel through the error-handling framework untyped (\<^verbatim>\<open>any\<close>):
  the \<^verbatim>\<open>details\<close> payload, the offending \<^verbatim>\<open>value\<close> of a validation error and
  the configured fallback values. Numbers are modelled as integers (status codes, counts,
  millisecond delays); an object is the ordered list of its own properties.
\<close>

datatype jsval =
    JUndefined
  | JNull
  | JBool bool
  | JNum int
  | JStr string
  | JArr "jsval list"
  | JObj "(string \<times> jsval) list"

text \<open>JavaScript truthiness, as used by \<^verbatim>\<open>a || b\<close> and \<^verbatim>\<open>if (a)\<close>.\<close>

fun truthy :: "jsval \<Rightarrow> bool" where
  "truthy JUndefined = False"
| "truthy JNull = False"
| "truthy (JBool b) = b"
| "truthy (JNum n) = (n \<noteq> 0)"
| "truthy (JStr s) = (s \<noteq> [])"
| "truthy (JArr xs) = True"
| "truthy (JObj ps) = True"

text \<open>\<^verbatim>\<open>a || b\<close> on values.\<close>

definition js_or :: "jsval \<Rightarrow> jsval \<Rightarrow> jsval" where
  "js_or a b = (if truthy a then a else b)"

text \<open>An optional string or number argument seen as a value (\<^verbatim>\<open>undefined\<close> when omitted).\<close>

fun opt_str :: "string option \<Rightarrow> jsval" where
  "opt_str None = JUndefined"
| "opt_str (Some s) = JStr s"

fun opt_num :: "int option \<Rightarrow> jsval" where
  "opt_num None = JUndefined"
| "opt_num (Some n) = JNum n"

text \<open>
  The result of arithmetic on numbers. A JavaScript number is a double: \<open>Finite n\<close> is
  the double whose value is the integer \<open>n\<close>, and a product that leaves the range of the
  doubles is an infinity. The numbers of a configuration (\<^verbatim>\<open>maxRetries\<close>,
  \<^verbatim>\<open>retryDelay\<close>, \<^verbatim>\<open>baseDelay\<close>) are taken to be integer-valued doubles.
\<close>

datatype js_number =
    Finite int
  | PosInfinity
  | NegInfinity
  | NaN

text \<open>
  \<^verbatim>\<open>Math.pow(2, k)\<close> for a count \<open>k\<close>: the power is a double up to \<open>2^1023\<close> and
  \<^verbatim>\<open>Infinity\<close> from \<open>k = 1024\<close> on.
\<close>

definition Math_pow2 :: "nat \<Rightarrow> js_number" where
  "Math_pow2 k = (if k < 1024 then Finite (2 ^ k) else PosInfinity)"

text \<open>
  \<^verbatim>\<open>d * p\<close> for an integer-valued double \<open>d\<close> and a result \<open>p\<close> of
  \<^verbatim>\<open>Math.pow(2, k)\<close>. Multiplying a double by a power of two is exact unless the
  product overflows, which happens from \<open>2^1024\<close> on; \<^verbatim>\<open>0 * Infinity\<close> is
  \<^verbatim>\<open>NaN\<close>.
\<close>

fun js_times :: "int \<Rightarrow> js_number \<Rightarrow> js_number" where
  "js_times d (Finite p) =
     (if \<bar>d * p\<bar> < 2 ^ 1024 then Finite (d * p)
      else if 0 < d * p then PosInfinity else NegInfinity)"
| "js_times d PosInfinity =
     (if d = 0 then NaN else if 0 < d then PosInfinity else NegInfinity)"
| "js_times d NegInfinity =
     (if d = 0 then NaN else if 0 < d then NegInfinity else PosInfinity)"
| "js_times d NaN = NaN"

text \<open>\<^verbatim>\<open>String.prototype.toLowerCase\<close> on ASCII text (class names are ASCII).\<close>

definition lower_char :: "char \<Rightarrow> char" where
  "lower_char c =
     (if 65 \<le> (of_char c :: nat) \<and> (of_char c :: nat) \<le> 90
      then char_of ((of_char c :: nat) + 32) else c)"

definition toLowerCase :: "string \<Rightarrow> string" where
  "toLowerCase s = map lower_char s"

section \<open>Error types\<close>

text \<open>
  The class of an error object: what \<^verbatim>\<open>error.constructor\<close> is and what
  \<^verbatim>\<open>instanceof\<close> tests. \<^verbatim>\<open>ServiceError\<close> and \<^verbatim>\<open>ValidationError\<close> extend
  \<^verbatim>\<open>PluginError\<close>; \<^verbatim>\<open>NetworkError\<close> extends \<^verbatim>\<open>ServiceError\<close>.
  The declaration of \<^verbatim>\<open>ConfigurationError\<close> is not among the sources; the
  specification makes it a specialisation of the Service kind.
\<close>

datatype error_class =
    PluginError_class
  | ServiceError_class
  | ValidationError_class
  | NetworkError_class
  | ConfigurationError_class

text \<open>
  An instance of \<^verbatim>\<open>PluginError\<close> or of one of its subclasses. The fields of the base
  class come first; the fields a subclass adds are \<open>None\<close> (\<open>JUndefined\<close>) on an
  instance of a class that does not declare them.
\<close>

record plugin_error =
  cls :: error_class
  name :: string
  message :: string
  code :: string
  details :: jsval
  timestamp :: string
  recoverable :: bool
  stack :: string
  service :: "string option"
  field :: "string option"
  val :: jsval
  status :: "int option"
  url :: "string option"
  configKey :: "string option"

text \<open>
  What construction reads from the environment: the clock
  (\<^verbatim>\<open>new Date().toISOString()\<close>) and the stack trace the \<^verbatim>\<open>Error\<close> base
  constructor captures.
\<close>

record env =
  now :: string
  trace :: string

text \<open>
  \<^verbatim>\<open>constructor(message, code = 'PLUGIN_ERROR', details?, recoverable = true)\<close>.
  A default applies when the argument is omitted (\<open>None\<close>).
\<close>

definition PluginError ::
  "env \<Rightarrow> string \<Rightarrow> string option \<Rightarrow> jsval \<Rightarrow> bool option \<Rightarrow> plugin_error" where
  "PluginError ev msg code_arg details_arg recoverable_arg =
     \<lparr> cls = PluginError_class,
       name = ''PluginError'',
       message = msg,
       code = (case code_arg of None \<Rightarrow> ''PLUGIN_ERROR'' | Some c \<Rightarrow> c),
       details = details_arg,
       timestamp = now ev,
       recoverable = (case recoverable_arg of None \<Rightarrow> True | Some r \<Rightarrow> r),
       stack = trace ev,
       service = None, field = None, val = JUndefined,
       status = None, url = None, configKey = None \<rparr>"

text \<open>
  \<^verbatim>\<open>constructor(message, service, code = 'SERVICE_ERROR', details?, recoverable = true)\<close>:
  calls \<^verbatim>\<open>super(message, code, details, recoverable)\<close>, then sets the name and the
  service.
\<close>

definition ServiceError ::
  "env \<Rightarrow> string \<Rightarrow> string \<Rightarrow> string option \<Rightarrow> jsval \<Rightarrow> bool option \<Rightarrow> plugin_error" where
  "ServiceError ev msg service_arg code_arg details_arg recoverable_arg =
     (PluginError ev msg
        (Some (case code_arg of None \<Rightarrow> ''SERVICE_ERROR'' | Some c \<Rightarrow> c))
        details_arg
        (Some (case recoverable_arg of None \<Rightarrow> True | Some r \<Rightarrow> r)))
     \<lparr> cls := ServiceError_class, name := ''ServiceError'', service := Some service_arg \<rparr>"

text \<open>
  \<^verbatim>\<open>constructor(message, field?, value?, code = 'VALIDATION_ERROR')\<close>:
  calls \<^verbatim>\<open>super(message, code, { field, value }, false)\<close>.
\<close>

definition ValidationError ::
  "env \<Rightarrow> string \<Rightarrow> string option \<Rightarrow> jsval \<Rightarrow> string option \<Rightarrow> plugin_error" where
  "ValidationError ev msg field_arg value_arg code_arg =
     (PluginError ev msg
        (Some (case code_arg of None \<Rightarrow> ''VALIDATION_ERROR'' | Some c \<Rightarrow> c))
        (JObj [(''field'', opt_str field_arg), (''value'', value_arg)])
        (Some False))
     \<lparr> cls := ValidationError_class, name := ''ValidationError'',
       field := field_arg, val := value_arg \<rparr>"

text \<open>
  \<^verbatim>\<open>constructor(message, status?, url?, code = 'NETWORK_ERROR')\<close>:
  calls \<^verbatim>\<open>super(message, 'network', code, { status, url }, true)\<close> of
  \<^verbatim>\<open>ServiceError\<close>.
\<close>

definition NetworkError ::
  "env \<Rightarrow> string \<Rightarrow> int option \<Rightarrow> string option \<Rightarrow> string option \<Rightarrow> plugin_error" where
  "NetworkError ev msg status_arg url_arg code_arg =
     (ServiceError ev msg ''network''
        (Some (case code_arg of None \<Rightarrow> ''NETWORK_ERROR'' | Some c \<Rightarrow> c))
        (JObj [(''status'', opt_num status_arg), (''url'', opt_str url_arg)])
        (Some True))
     \<lparr> cls := NetworkError_class, name := ''NetworkError'',
       status := status_arg, url := url_arg \<rparr>"

text \<open>
  Modelled from the spec: the class \<^verbatim>\<open>ConfigurationError\<close>, whose declaration is
  not among the sources (only the call
  \<^verbatim>\<open>new ConfigurationError('Missing required configuration', 'apiEndpoint')\<close> is).
  The specification makes it a specialisation of the Service kind that carries
  \<^verbatim>\<open>configKey\<close>, with the code defaulted to \<^verbatim>\<open>CONFIGURATION_ERROR\<close> and the
  default recoverability. The service name and the details payload follow the sibling
  \<^verbatim>\<open>NetworkError\<close>.
\<close>

definition ConfigurationError ::
  "env \<Rightarrow> string \<Rightarrow> string option \<Rightarrow> string option \<Rightarrow> plugin_error" where
  "ConfigurationError ev msg configKey_arg code_arg =
     (ServiceError ev msg ''configuration''
        (Some (case code_arg of None \<Rightarrow> ''CONFIGURATION_ERROR'' | Some c \<Rightarrow> c))
        (JObj [(''configKey'', opt_str configKey_arg)])
        (Some True))
     \<lparr> cls := ConfigurationError_class, name := ''ConfigurationError'',
       configKey := configKey_arg \<rparr>"

text \<open>\<^verbatim>\<open>PluginError.toJSON\<close>; no subclass overrides it.\<close>

definition toJSON :: "plugin_error \<Rightarrow> jsval" where
  "toJSON e =
     JObj [(''name'', JStr (name e)),
           (''message'', JStr (message e)),
           (''code'', JStr (code e)),
           (''details'', details e),
           (''timestamp'', JStr (timestamp e)),
           (''recoverable'', JBool (recoverable e)),
           (''stack'', JStr (stack e))]"

text \<open>
  A call of one of the five constructors with its arguments, and the record it builds.
  Every instance of the hierarchy is the result of one such call.
\<close>

datatype constructor_call =
    New_PluginError string "string option" jsval "bool option"
  | New_ServiceError string string "string option" jsval "bool option"
  | New_ValidationError string "string option" jsval "string option"
  | New_NetworkError string "int option" "string option" "string option"
  | New_ConfigurationError string "string option" "string option"

fun construct :: "env \<Rightarrow> constructor_call \<Rightarrow> plugin_error" where
  "construct ev (New_PluginError m c d r) = PluginError ev m c d r"
| "construct ev (New_ServiceError m s c d r) = ServiceError ev m s c d r"
| "construct ev (New_ValidationError m f v c) = ValidationError ev m f v c"
| "construct ev (New_NetworkError m st u c) = NetworkError ev m st u c"
| "construct ev (New_ConfigurationError m k c) = ConfigurationError ev m k c"

text \<open>The class a call instantiates.\<close>

fun class_of :: "constructor_call \<Rightarrow> error_class" where
  "class_of (New_PluginError m c d r) = PluginError_class"
| "class_of (New_ServiceError m s c d r) = ServiceError_class"
| "class_of (New_ValidationError m f v c) = ValidationError_class"
| "class_of (New_NetworkError m st u c) = NetworkError_class"
| "class_of (New_ConfigurationError m k c) = ConfigurationError_class"

text \<open>The \<^verbatim>\<open>code\<close> argument of a call (\<open>None\<close> when the caller omits it).\<close>

fun code_arg_of :: "constructor_call \<Rightarrow> string option" where
  "code_arg_of (New_PluginError m c d r) = c"
| "code_arg_of (New_ServiceError m s c d r) = c"
| "code_arg_of (New_ValidationError m f v c) = c"
| "code_arg_of (New_NetworkError m st u c) = c"
| "code_arg_of (New_ConfigurationError m k c) = c"

text \<open>
  The \<^verbatim>\<open>recoverable\<close> argument of a call: only \<^verbatim>\<open>PluginError\<close> and
  \<^verbatim>\<open>ServiceError\<close> have the parameter.
\<close>

fun recoverable_arg_of :: "constructor_call \<Rightarrow> bool option" where
  "recoverable_arg_of (New_PluginError m c d r) = r"
| "recoverable_arg_of (New_ServiceError m s c d r) = r"
| "recoverable_arg_of (New_ValidationError m f v c) = None"
| "recoverable_arg_of (New_NetworkError m st u c) = None"
| "recoverable_arg_of (New_ConfigurationError m k c) = None"

text \<open>The default of the \<^verbatim>\<open>code\<close> parameter in each class.\<close>

fun default_code :: "error_class \<Rightarrow> string" where
  "default_code PluginError_class = ''PLUGIN_ERROR''"
| "default_code ServiceError_class = ''SERVICE_ERROR''"
| "default_code ValidationError_class = ''VALIDATION_ERROR''"
| "default_code NetworkError_class = ''NETWORK_ERROR''"
| "default_code ConfigurationError_class = ''CONFIGURATION_ERROR''"

text \<open>Reading a property of a dumped object.\<close>

fun get_prop :: "jsval \<Rightarrow> string \<Rightarrow> jsval option" where
  "get_prop (JObj ps) k = map_of ps k"
| "get_prop v k = None"

text \<open>
  The prototype chain of a class, the class itself first: \<^verbatim>\<open>e instanceof C\<close> holds
  when \<open>C\<close> is on the chain of the class of \<open>e\<close>. The chain of
  \<^verbatim>\<open>ConfigurationError\<close> is the one the specification gives.
\<close>

fun ancestors :: "error_class \<Rightarrow> error_class list" where
  "ancestors PluginError_class = [PluginError_class]"
| "ancestors ServiceError_class = [ServiceError_class, PluginError_class]"
| "ancestors ValidationError_class = [ValidationError_class, PluginError_class]"
| "ancestors NetworkError_class =
     [NetworkError_class, ServiceError_class, PluginError_class]"
| "ancestors ConfigurationError_class =
     [ConfigurationError_class, ServiceError_class, PluginError_class]"

definition instanceof :: "plugin_error \<Rightarrow> error_class \<Rightarrow> bool" where
  "instanceof e c = (c \<in> set (ancestors (cls e)))"

text \<open>
  An \<^verbatim>\<open>Error\<close> object as the handlers receive it (parameter type \<^verbatim>\<open>Error\<close>):
  a plain \<^verbatim>\<open>Error\<close> with its message; an instance of another subclass of
  \<^verbatim>\<open>Error\<close> that is outside the hierarchy (a \<^verbatim>\<open>TypeError\<close>, say), with the
  name of its class and its message; or an instance of the hierarchy.
\<close>

datatype js_error =
    JsError string
  | OtherError string string
  | PluginErr plugin_error

text \<open>\<^verbatim>\<open>error.constructor.name\<close>.\<close>

fun class_name :: "error_class \<Rightarrow> string" where
  "class_name PluginError_class = ''PluginError''"
| "class_name ServiceError_class = ''ServiceError''"
| "class_name ValidationError_class = ''ValidationError''"
| "class_name NetworkError_class = ''NetworkError''"
| "class_name ConfigurationError_class = ''ConfigurationError''"

fun constructor_name :: "js_error \<Rightarrow> string" where
  "constructor_name (JsError m) = ''Error''"
| "constructor_name (OtherError n m) = n"
| "constructor_name (PluginErr e) = class_name (cls e)"

text \<open>What a \<^verbatim>\<open>throw\<close> carries: an \<^verbatim>\<open>Error\<close> object or any other value.\<close>

datatype thrown =
    Thrown_error js_error
  | Thrown_value jsval

text \<open>The outcome of calling a fallible function.\<close>

datatype 'a outcome =
    Returns 'a
  | Throws thrown

section \<open>Strategy resolver\<close>

text \<open>
  The configuration an \<^verbatim>\<open>ErrorHandler\<close> holds. Every field is optional
  (\<^verbatim>\<open>this.config.maxRetries || 3\<close>, \<^verbatim>\<open>this.config.fallbackValues?.[key]\<close>).
\<close>

record error_handler_config =
  maxRetries :: "int option"
  retryDelay :: "int option"
  enableLogging :: "bool option"
  enableReporting :: "bool option"
  userNotification :: "bool option"
  fallbackValues :: "(string \<rightharpoonup> jsval) option"

text \<open>
  What a strategy handler returns: \<^verbatim>\<open>{ handled, shouldRetry? }\<close> or
  \<^verbatim>\<open>{ handled, result? }\<close>.
\<close>

record strategy_result =
  handled :: bool
  shouldRetry :: "bool option"
  result :: "jsval option"

text \<open>
  \<^verbatim>\<open>handleRetryStrategy(error, currentCount)\<close>. The first component is the list of
  delays awaited through \<^verbatim>\<open>this.delay\<close> during the call (at most one), in
  milliseconds. \<^verbatim>\<open>this.config.maxRetries || 3\<close> yields 3 when the field is unset
  and also when it is 0; the delay is skipped when \<^verbatim>\<open>retryDelay\<close> is unset or 0.
  The error is only written to the console. The delay is the double
  \<^verbatim>\<open>this.config.retryDelay * Math.pow(2, currentCount)\<close>.
\<close>

definition handleRetryStrategy ::
  "error_handler_config \<Rightarrow> js_error \<Rightarrow> nat \<Rightarrow> js_number list \<times> strategy_result" where
  "handleRetryStrategy cfg error currentCount =
     (let maxR = (case maxRetries cfg of
                    None \<Rightarrow> 3
                  | Some m \<Rightarrow> if m \<noteq> 0 then m else 3) in
      if int currentCount < maxR then
        ((case retryDelay cfg of
            None \<Rightarrow> []
          | Some d \<Rightarrow> if d \<noteq> 0 then [js_times d (Math_pow2 currentCount)] else []),
         \<lparr> handled = True, shouldRetry = Some True, result = None \<rparr>)
      else
        ([], \<lparr> handled = False, shouldRetry = Some False, result = None \<rparr>))"

text \<open>\<^verbatim>\<open>this.config.fallbackValues?.[fallbackKey]\<close>.\<close>

definition fallback_lookup :: "error_handler_config \<Rightarrow> string \<Rightarrow> jsval" where
  "fallback_lookup cfg k =
     (case fallbackValues cfg of
        None \<Rightarrow> JUndefined
      | Some tbl \<Rightarrow> (case tbl k of None \<Rightarrow> JUndefined | Some v \<Rightarrow> v))"

text \<open>
  \<^verbatim>\<open>handleFallbackStrategy(error)\<close>. The helper \<^verbatim>\<open>getDefaultFallback\<close> is a
  method whose body is not among the sources; it is a parameter here.
\<close>

definition handleFallbackStrategy ::
  "error_handler_config \<Rightarrow> (js_error \<Rightarrow> jsval) \<Rightarrow> js_error \<Rightarrow> strategy_result" where
  "handleFallbackStrategy cfg getDefaultFallback error =
     (let fallbackKey = toLowerCase (constructor_name error);
          fallbackValue = fallback_lookup cfg fallbackKey in
      \<lparr> handled = True, shouldRetry = None,
        result = Some (js_or fallbackValue (getDefaultFallback error)) \<rparr>)"

text \<open>
  The key the specification names for an error: the lower-cased name of its kind, written
  out kind by kind, to be compared with the key the handler computes. An error of a class
  outside the hierarchy has the lower-cased name of that class.
\<close>

fun kind_key :: "js_error \<Rightarrow> string" where
  "kind_key (JsError m) = ''error''"
| "kind_key (OtherError n m) = toLowerCase n"
| "kind_key (PluginErr e) =
     (case cls e of
        PluginError_class \<Rightarrow> ''pluginerror''
      | ServiceError_class \<Rightarrow> ''serviceerror''
      | ValidationError_class \<Rightarrow> ''validationerror''
      | NetworkError_class \<Rightarrow> ''networkerror''
      | ConfigurationError_class \<Rightarrow> ''configurationerror'')"

section \<open>Retry loop\<close>

text \<open>
  What a run does that can be observed from outside: it invokes the operation (for the
  \<open>i\<close>-th time, counting from 0) and it sleeps for a delay in milliseconds.
\<close>

datatype event =
    Invoked nat
  | Slept js_number

text \<open>
  A run of \<^verbatim>\<open>retryAsync\<close>: how it ends, how many times it invoked the operation,
  and its invocations and sleeps in the order in which they took place.
\<close>

record 'a retry_trace =
  final :: "'a outcome"
  invocations :: nat
  events :: "event list"

text \<open>
  The \<^verbatim>\<open>for\<close> loop of \<^verbatim>\<open>retryAsync\<close>. The operation is stateful: its outcome is
  given by the number of invocations made before. \<^verbatim>\<open>lastError\<close> is unassigned
  until an invocation fails, so the \<^verbatim>\<open>throw lastError!\<close> after the loop throws
  \<^verbatim>\<open>undefined\<close> when the loop body never ran. \<^verbatim>\<open>String\<close> is the JavaScript
  conversion of a thrown non-error value. The delay handed to \<^verbatim>\<open>setTimeout\<close> is the
  double \<^verbatim>\<open>baseDelay * Math.pow(2, attempt)\<close>.
\<close>

function retryAsync_loop ::
  "(nat \<Rightarrow> 'a outcome) \<Rightarrow> (jsval \<Rightarrow> string) \<Rightarrow> int \<Rightarrow> int \<Rightarrow>
   nat \<Rightarrow> nat \<Rightarrow> js_error option \<Rightarrow> event list \<Rightarrow> 'a retry_trace" where
  "retryAsync_loop operation String maxR baseDelay attempt calls lastError log =
     (if int attempt \<le> maxR then
        (case operation calls of
           Returns v \<Rightarrow>
             \<lparr> final = Returns v, invocations = calls + 1,
               events = log @ [Invoked calls] \<rparr>
         | Throws x \<Rightarrow>
             (let err = (case x of
                           Thrown_error e \<Rightarrow> e
                         | Thrown_value v \<Rightarrow> JsError (String v)) in
              if int attempt = maxR then
                \<lparr> final = Throws (Thrown_error err), invocations = calls + 1,
                  events = log @ [Invoked calls] \<rparr>
              else
                retryAsync_loop operation String maxR baseDelay (attempt + 1) (calls + 1)
                  (Some err)
                  (log @ [Invoked calls, Slept (js_times baseDelay (Math_pow2 attempt))])))
      else
        \<lparr> final = Throws (case lastError of
                            None \<Rightarrow> Thrown_value JUndefined
                          | Some e \<Rightarrow> Thrown_error e),
          invocations = calls, events = log \<rparr>)"
  by pat_completeness auto
termination
  by (relation "measure (\<lambda>(operation, String, maxR, baseDelay, attempt, calls, lastError, log).
        nat (maxR + 1 - int attempt))") auto

declare retryAsync_loop.simps [simp del]

text \<open>
  \<^verbatim>\<open>retryAsync(operation, maxRetries = 3, baseDelay = 1000)\<close>.
\<close>

definition retryAsync ::
  "(nat \<Rightarrow> 'a outcome) \<Rightarrow> (jsval \<Rightarrow> string) \<Rightarrow> int option \<Rightarrow> int option \<Rightarrow> 'a retry_trace" where
  "retryAsync operation String maxRetries_arg baseDelay_arg =
     retryAsync_loop operation String
       (case maxRetries_arg of None \<Rightarrow> 3 | Some m \<Rightarrow> m)
       (case baseDelay_arg of None \<Rightarrow> 1000 | Some d \<Rightarrow> d)
       0 0 None []"

text \<open>
  The run of \<^verbatim>\<open>retryAsync\<close> the backoff rule describes, up to the \<open>k\<close>-th retry:
  the first attempt, then for each retry a sleep of \<open>b * 2^j\<close> milliseconds followed at
  once by the next invocation.
\<close>

definition backoff_schedule :: "int \<Rightarrow> nat \<Rightarrow> event list" where
  "backoff_schedule b k =
     concat (map (\<lambda>j. [Invoked j, Slept (Finite (b * 2 ^ j))]) [0 ..< k]) @ [Invoked k]"

section \<open>Operation wrapper\<close>

text \<open>
  Modelled from the spec: the normalisation of a caught failure by the operation wrapper,
  whose code (\<^verbatim>\<open>safeAsync\<close>, \<^verbatim>\<open>normalizeError\<close>) is not among the sources.
  The specification: errors native to the taxonomy are never re-wrapped; a foreign failure
  is normalised into a base Plugin error. How a foreign failure is wrapped is a parameter.
\<close>

fun normalizeError :: "(thrown \<Rightarrow> plugin_error) \<Rightarrow> thrown \<Rightarrow> plugin_error" where
  "normalizeError wrapForeign (Thrown_error (PluginErr e)) = e"
| "normalizeError wrapForeign x = wrapForeign x"

text \<open>
  Modelled from the spec: the decision of the strategy resolver under the Retry strategy.
  The dispatcher \<^verbatim>\<open>handleError\<close>, which receives the error before any strategy
  handler does, is not among the sources. The specification: an error with
  \<^verbatim>\<open>recoverable = false\<close> short-circuits straight to unhandled and is never
  retried; any other error gets the Retry policy, which is \<^verbatim>\<open>handleRetryStrategy\<close>
  of the sources.
\<close>

definition resolveRetry ::
  "error_handler_config \<Rightarrow> plugin_error \<Rightarrow> nat \<Rightarrow> js_number list \<times> strategy_result" where
  "resolveRetry cfg e attempts =
     (if \<not> recoverable e then
        ([], \<lparr> handled = False, shouldRetry = Some False, result = None \<rparr>)
      else handleRetryStrategy cfg (PluginErr e) attempts)"

text \<open>
  Modelled from the spec: \<^verbatim>\<open>runSafely(operation, fallbackValue, Retry)\<close>, the
  asynchronous entry point of the operation wrapper under the Retry strategy
  (\<^verbatim>\<open>safeAsync\<close>, not among the sources). The specification: invoke the operation
  and return its result on success; on failure normalise the error and consult the
  resolver; when the decision says retry, wait the delay, increment the attempt count and
  invoke the operation again; otherwise return the fallback value when the caller supplied
  one, and re-raise the error when not. The statistics table is not part of the trace.
\<close>

function runSafely_loop ::
  "error_handler_config \<Rightarrow> (thrown \<Rightarrow> plugin_error) \<Rightarrow> (nat \<Rightarrow> 'a outcome) \<Rightarrow> 'a option \<Rightarrow>
   nat \<Rightarrow> event list \<Rightarrow> 'a retry_trace" where
  "runSafely_loop cfg wrapForeign operation fallbackValue attempts log =
     (case operation attempts of
        Returns v \<Rightarrow>
          \<lparr> final = Returns v, invocations = attempts + 1,
            events = log @ [Invoked attempts] \<rparr>
      | Throws x \<Rightarrow>
          (if shouldRetry (snd (resolveRetry cfg (normalizeError wrapForeign x) attempts))
                = Some True
           then
             runSafely_loop cfg wrapForeign operation fallbackValue (attempts + 1)
               (log @ Invoked attempts #
                  map Slept (fst (resolveRetry cfg (normalizeError wrapForeign x) attempts)))
           else
             \<lparr> final = (case fallbackValue of
                          Some v \<Rightarrow> Returns v
                        | None \<Rightarrow> Throws (Thrown_error (PluginErr
                                   (normalizeError wrapForeign x)))),
               invocations = attempts + 1,
               events = log @ [Invoked attempts] \<rparr>))"
  by pat_completeness auto
termination
proof (relation "measure (\<lambda>(cfg, wrapForeign, operation, fallbackValue, attempts, log).
        nat ((case maxRetries cfg of None \<Rightarrow> 3 | Some m \<Rightarrow> if m \<noteq> 0 then m else 3)
             - int attempts))")
  show "wf (measure (\<lambda>(cfg, wrapForeign, operation, fallbackValue, attempts, log).
        nat ((case maxRetries cfg of None \<Rightarrow> 3 | Some m \<Rightarrow> if m \<noteq> 0 then m else 3)
             - int attempts)))"
    by simp
next
  fix cfg :: error_handler_config and wrapForeign :: "thrown \<Rightarrow> plugin_error"
    and operation :: "nat \<Rightarrow> 'a outcome" and fallbackValue :: "'a option"
    and attempts :: nat and log :: "event list" and x :: thrown
  assume "shouldRetry (snd (resolveRetry cfg (normalizeError wrapForeign x) attempts))
            = Some True"
  then have "int attempts
      < (case maxRetries cfg of None \<Rightarrow> 3 | Some m \<Rightarrow> if m \<noteq> 0 then m else 3)"
    by (simp add: resolveRetry_def handleRetryStrategy_def Let_def split: if_splits)
  then show "((cfg, wrapForeign, operation, fallbackValue, attempts + 1,
        log @ Invoked attempts #
          map Slept (fst (resolveRetry cfg (normalizeError wrapForeign x) attempts))),
       (cfg, wrapForeign, operation, fallbackValue, attempts, log))
      \<in> measure (\<lambda>(cfg, wrapForeign, operation, fallbackValue, attempts, log).
        nat ((case maxRetries cfg of None \<Rightarrow> 3 | Some m \<Rightarrow> if m \<noteq> 0 then m else 3)
             - int attempts))"
    by simp
qed

declare runSafely_loop.simps [simp del]

definition runSafely ::
  "error_handler_config \<Rightarrow> (thrown \<Rightarrow> plugin_error) \<Rightarrow> (nat \<Rightarrow> 'a outcome) \<Rightarrow> 'a option \<Rightarrow>
   'a retry_trace" where
  "runSafely cfg wrapForeign operation fallbackValue =
     runSafely_loop cfg wrapForeign operation fallbackValue 0 []"

section \<open>User messages\<close>

text \<open>
  \<^verbatim>\<open>getUserMessage(error)\<close>: the \<^verbatim>\<open>instanceof\<close> tests in the order of the source.
  An error from outside the hierarchy is an instance of none of the classes.
\<close>

fun getUserMessage :: "js_error \<Rightarrow> string" where
  "getUserMessage (JsError m) = ''An unexpected error occurred. Please try again.''"
| "getUserMessage (OtherError n m) = ''An unexpected error occurred. Please try again.''"
| "getUserMessage (PluginErr e) =
     (if instanceof e ValidationError_class then
        ''Please check your input: '' @ message e
      else if instanceof e NetworkError_class then
        ''Network connection issue. Please try again.''
      else if instanceof e ServiceError_class then
        ''Service temporarily unavailable: '' @
          (case service e of None \<Rightarrow> ''undefined'' | Some s \<Rightarrow> s)
      else ''An unexpected error occurred. Please try again.'')"

section \<open>Validation helper\<close>

text \<open>What a validation rule returns: \<^verbatim>\<open>true\<close>, \<^verbatim>\<open>false\<close> or a message.\<close>

datatype rule_result =
    Rule_true
  | Rule_false
  | Rule_message string

text \<open>
  Modelled from the spec: \<^verbatim>\<open>validate(value, rules, fieldName)\<close>, a method of
  \<^verbatim>\<open>ErrorHandler\<close> whose body is not among the sources (its calls and a unit test
  are). The specification: the rules are evaluated in order; on the first rule that
  returns a message, or \<^verbatim>\<open>false\<close>, which maps to a generic message, a validation
  error carrying the field name and the offending value is raised; an error thrown by a
  rule propagates; on success the value is returned unchanged. The wording of the generic
  message is not specified and is a parameter. The error is built by the
  \<^verbatim>\<open>ValidationError\<close> constructor of the sources.
\<close>

fun validate ::
  "env \<Rightarrow> string \<Rightarrow> jsval \<Rightarrow> (jsval \<Rightarrow> rule_result outcome) list \<Rightarrow> string \<Rightarrow> jsval outcome" where
  "validate ev generic v [] fieldName = Returns v"
| "validate ev generic v (rule # rules) fieldName =
     (case rule v of
        Throws x \<Rightarrow> Throws x
      | Returns Rule_true \<Rightarrow> validate ev generic v rules fieldName
      | Returns Rule_false \<Rightarrow>
          Throws (Thrown_error (PluginErr
            (ValidationError ev generic (Some fieldName) v None)))
      | Returns (Rule_message m) \<Rightarrow>
          Throws (Thrown_error (PluginErr
            (ValidationError ev m (Some fieldName) v None))))"

text \<open>Whether a rule rejects a value: it returns \<^verbatim>\<open>false\<close> or a message.\<close>

fun rejects :: "(jsval \<Rightarrow> rule_result outcome) \<Rightarrow> jsval \<Rightarrow> bool" where
  "rejects rule v =
     (case rule v of
        Returns Rule_false \<Rightarrow> True
      | Returns (Rule_message m) \<Rightarrow> True
      | _ \<Rightarrow> False)"

text \<open>The message of the error raised for a rejecting rule.\<close>

fun rejection_message :: "string \<Rightarrow> (jsval \<Rightarrow> rule_result outcome) \<Rightarrow> jsval \<Rightarrow> string" where
  "rejection_message generic rule v =
     (case rule v of Returns (Rule_message m) \<Rightarrow> m | _ \<Rightarrow> generic)"

section \<open>Properties\<close>

subsection \<open>Auxiliary facts\<close>

lemmas constructor_defs =
  PluginError_def ServiceError_def ValidationError_def NetworkError_def
  ConfigurationError_def

lemma cls_construct: "cls (construct ev call) = class_of call"
  by (cases call) (simp_all add: constructor_defs)

lemma opt_str_inject [simp]: "opt_str a = opt_str b \<longleftrightarrow> a = b"
  by (cases a; cases b) simp_all

lemma opt_num_inject [simp]: "opt_num a = opt_num b \<longleftrightarrow> a = b"
  by (cases a; cases b) simp_all

lemma lower_NetworkError: "toLowerCase ''NetworkError'' = ''networkerror''"
  by code_simp

lemma lower_class_names:
  "toLowerCase ''Error'' = ''error''"
  "toLowerCase ''PluginError'' = ''pluginerror''"
  "toLowerCase ''ServiceError'' = ''serviceerror''"
  "toLowerCase ''ValidationError'' = ''validationerror''"
  "toLowerCase ''NetworkError'' = ''networkerror''"
  "toLowerCase ''ConfigurationError'' = ''configurationerror''"
  "toLowerCase ''TypeError'' = ''typeerror''"
  by code_simp+

text \<open>
  The key the handler computes, \<^verbatim>\<open>error.constructor.name.toLowerCase()\<close>, is the
  lower-cased kind name of the error, for every error.
\<close>

lemma handler_key: "toLowerCase (constructor_name error) = kind_key error"
proof (cases error)
  case (PluginErr e)
  then show ?thesis by (cases "cls e") (simp_all add: lower_class_names)
qed (simp_all add: lower_class_names)

lemma network_not_validation:
  "instanceof e NetworkError_class \<Longrightarrow> \<not> instanceof e ValidationError_class"
  by (cases "cls e") (simp_all add: instanceof_def)

text \<open>The dump holds the seven fields of the base class, each under its own name.\<close>

lemma toJSON_fields:
  "get_prop (toJSON e) ''name'' = Some (JStr (name e)) \<and>
   get_prop (toJSON e) ''message'' = Some (JStr (message e)) \<and>
   get_prop (toJSON e) ''code'' = Some (JStr (code e)) \<and>
   get_prop (toJSON e) ''details'' = Some (details e) \<and>
   get_prop (toJSON e) ''timestamp'' = Some (JStr (timestamp e)) \<and>
   get_prop (toJSON e) ''recoverable'' = Some (JBool (recoverable e)) \<and>
   get_prop (toJSON e) ''stack'' = Some (JStr (stack e))"
  by (simp add: toJSON_def)

text \<open>
  A record built by \<^verbatim>\<open>PluginError\<close>, \<^verbatim>\<open>ValidationError\<close> or
  \<^verbatim>\<open>NetworkError\<close> is determined by its dump: the name tells the class, and the
  fields the subclass adds are copied into \<^verbatim>\<open>details\<close>.
\<close>

lemma toJSON_inject:
  assumes "class_of c1 \<in> {PluginError_class, ValidationError_class, NetworkError_class}"
    and "class_of c2 \<in> {PluginError_class, ValidationError_class, NetworkError_class}"
    and "toJSON (construct ev1 c1) = toJSON (construct ev2 c2)"
  shows "construct ev1 c1 = construct ev2 c2"
  using assms by (cases c1; cases c2) (simp_all add: constructor_defs toJSON_def)

text \<open>Rules that return \<^verbatim>\<open>true\<close> are passed over.\<close>

lemma validate_passed:
  "\<forall>r \<in> set passed. r v = Returns Rule_true \<Longrightarrow>
   validate ev generic v (passed @ rules) fieldName = validate ev generic v rules fieldName"
  by (induction passed) simp_all

text \<open>
  Within the range of the doubles the delay is the exact product.
\<close>

lemma js_times_exact:
  "k < 1024 \<Longrightarrow> \<bar>d\<bar> * 2 ^ k < 2 ^ 1024 \<Longrightarrow> js_times d (Math_pow2 k) = Finite (d * 2 ^ k)"
  by (simp add: Math_pow2_def abs_mult)

lemma js_times_exact_below:
  assumes "j < k" and "k \<le> 1024" and "\<bar>b\<bar> * 2 ^ (k - 1) < (2 :: int) ^ 1024"
  shows "js_times b (Math_pow2 j) = Finite (b * 2 ^ j)"
proof -
  have "j \<le> k - 1" using assms(1) by simp
  then have "(2 :: int) ^ j \<le> 2 ^ (k - 1)"
    by (simp add: power_increasing)
  then have "\<bar>b\<bar> * 2 ^ j \<le> \<bar>b\<bar> * 2 ^ (k - 1)"
    by (simp add: mult_left_mono)
  then have "\<bar>b\<bar> * 2 ^ j < 2 ^ 1024" using assms(3) by linarith
  moreover have "j < 1024" using assms(1,2) by simp
  ultimately show ?thesis by (rule js_times_exact [rotated])
qed

lemma retryAsync_loop_extends:
  "\<exists>rest. events (retryAsync_loop operation String maxR baseDelay attempt calls lastError log)
      = log @ rest"
proof (induction operation String maxR baseDelay attempt calls lastError log
        rule: retryAsync_loop.induct)
  case (1 operation String maxR baseDelay attempt calls lastError log)
  let ?run = "retryAsync_loop operation String maxR baseDelay attempt calls lastError log"
  show ?case
  proof (cases "int attempt \<le> maxR")
    case False
    then have "events ?run = log" by (subst retryAsync_loop.simps) simp
    then show ?thesis by simp
  next
    case le: True
    show ?thesis
    proof (cases "operation calls")
      case (Returns v)
      then have "events ?run = log @ [Invoked calls]"
        using le by (subst retryAsync_loop.simps) simp
      then show ?thesis by simp
    next
      case (Throws x)
      define err where
        "err = (case x of Thrown_error e \<Rightarrow> e | Thrown_value v \<Rightarrow> JsError (String v))"
      show ?thesis
      proof (cases "int attempt = maxR")
        case True
        then have "events ?run = log @ [Invoked calls]"
          using le Throws by (subst retryAsync_loop.simps) (simp add: err_def)
        then show ?thesis by simp
      next
        case False
        have step: "?run = retryAsync_loop operation String maxR baseDelay (attempt + 1)
            (calls + 1) (Some err)
            (log @ [Invoked calls, Slept (js_times baseDelay (Math_pow2 attempt))])"
          using le Throws False by (subst retryAsync_loop.simps) (simp add: err_def Let_def)
        from "1.IH" [OF le Throws err_def False] step
        show ?thesis by auto
      qed
    qed
  qed
qed

lemma retryAsync_loop_first:
  assumes "int attempt \<le> maxR"
  shows "\<exists>rest. events (retryAsync_loop operation String maxR baseDelay attempt calls lastError log)
      = log @ Invoked calls # rest"
proof -
  let ?run = "retryAsync_loop operation String maxR baseDelay attempt calls lastError log"
  show ?thesis
  proof (cases "operation calls")
    case (Returns v)
    then have "events ?run = log @ [Invoked calls]"
      using assms by (subst retryAsync_loop.simps) simp
    then show ?thesis by simp
  next
    case (Throws x)
    define err where
      "err = (case x of Thrown_error e \<Rightarrow> e | Thrown_value v \<Rightarrow> JsError (String v))"
    show ?thesis
    proof (cases "int attempt = maxR")
      case True
      then have "events ?run = log @ [Invoked calls]"
        using assms Throws by (subst retryAsync_loop.simps) (simp add: err_def)
      then show ?thesis by simp
    next
      case False
      have step: "?run = retryAsync_loop operation String maxR baseDelay (attempt + 1)
          (calls + 1) (Some err)
          (log @ [Invoked calls, Slept (js_times baseDelay (Math_pow2 attempt))])"
        using assms Throws False by (subst retryAsync_loop.simps) (simp add: err_def Let_def)
      from retryAsync_loop_extends [of operation String maxR baseDelay "attempt + 1"
          "calls + 1" "Some err"
          "log @ [Invoked calls, Slept (js_times baseDelay (Math_pow2 attempt))]"] step
      show ?thesis by auto
    qed
  qed
qed

lemma retryAsync_loop_steps:
  "(\<And>i. i < m \<Longrightarrow> \<exists>x. operation (calls + i) = Throws x) \<Longrightarrow> int (attempt + m) \<le> maxR \<Longrightarrow>
   \<exists>lastError'. retryAsync_loop operation String maxR baseDelay attempt calls lastError log
     = retryAsync_loop operation String maxR baseDelay (attempt + m) (calls + m) lastError'
         (log @ concat (map (\<lambda>j. [Invoked (calls + j),
                                    Slept (js_times baseDelay (Math_pow2 (attempt + j)))])
                          [0 ..< m]))"
proof (induction m)
  case 0
  then show ?case by auto
next
  case (Suc m)
  from Suc.prems(1) [of m] obtain x where x: "operation (calls + m) = Throws x" by auto
  define err where
    "err = (case x of Thrown_error e \<Rightarrow> e | Thrown_value v \<Rightarrow> JsError (String v))"
  have "\<And>i. i < m \<Longrightarrow> \<exists>x. operation (calls + i) = Throws x"
    using Suc.prems(1) by simp
  moreover have "int (attempt + m) \<le> maxR" using Suc.prems(2) by simp
  ultimately obtain le' where run: "retryAsync_loop operation String maxR baseDelay attempt calls lastError log
     = retryAsync_loop operation String maxR baseDelay (attempt + m) (calls + m) le'
         (log @ concat (map (\<lambda>j. [Invoked (calls + j),
                                    Slept (js_times baseDelay (Math_pow2 (attempt + j)))])
                          [0 ..< m]))"
    using Suc.IH by blast
  have lt: "int (attempt + m) \<le> maxR" "int (attempt + m) \<noteq> maxR"
    using Suc.prems(2) by simp_all
  have step: "retryAsync_loop operation String maxR baseDelay (attempt + m) (calls + m) le' L
      = retryAsync_loop operation String maxR baseDelay (attempt + m + 1) (calls + m + 1)
          (Some err)
          (L @ [Invoked (calls + m), Slept (js_times baseDelay (Math_pow2 (attempt + m)))])"
    for L
    using lt x by (subst retryAsync_loop.simps) (simp add: err_def Let_def)
  show ?case
    by (rule exI [of _ "Some err"]) (simp add: run step)
qed

lemma retryAsync_reaches_retry:
  assumes "\<And>i. i < k \<Longrightarrow> \<exists>x. operation i = Throws x" and "int k \<le> maxR"
  shows "\<exists>rest. events (retryAsync operation String (Some maxR) (Some b))
      = concat (map (\<lambda>j. [Invoked j, Slept (js_times b (Math_pow2 j))]) [0 ..< k])
          @ Invoked k # rest"
proof -
  from retryAsync_loop_steps [of k operation 0 0 maxR String b None "[]"] assms
  obtain le' where run: "retryAsync_loop operation String maxR b 0 0 None []
      = retryAsync_loop operation String maxR b k k le'
          (concat (map (\<lambda>j. [Invoked j, Slept (js_times b (Math_pow2 j))]) [0 ..< k]))"
    by auto
  from retryAsync_loop_first [OF assms(2), of operation String b k le'
      "concat (map (\<lambda>j. [Invoked j, Slept (js_times b (Math_pow2 j))]) [0 ..< k])"]
  show ?thesis
    unfolding retryAsync_def by (simp add: run)
qed

lemma schedule_exact:
  assumes "k \<le> 1024" and "\<bar>b\<bar> * 2 ^ (k - 1) < (2 :: int) ^ 1024"
  shows "concat (map (\<lambda>j. [Invoked j, Slept (js_times b (Math_pow2 j))]) [0 ..< k]) @ [Invoked k]
      = backoff_schedule b k"
proof -
  have eq: "map (\<lambda>j. [Invoked j, Slept (js_times b (Math_pow2 j))]) [0 ..< k]
      = map (\<lambda>j. [Invoked j, Slept (Finite (b * 2 ^ j))]) [0 ..< k]"
    by (rule map_cong [OF refl]) (simp add: js_times_exact_below [OF _ assms])
  show ?thesis
    unfolding backoff_schedule_def by (simp only: eq)
qed

lemma retryAsync_loop_always_fails:
  "(\<And>i. \<exists>x. operation i = Throws x) \<Longrightarrow> int attempt \<le> maxR \<Longrightarrow>
   invocations (retryAsync_loop operation String maxR baseDelay attempt calls lastError log)
     = calls + (nat maxR - attempt) + 1 \<and>
   (\<exists>e. final (retryAsync_loop operation String maxR baseDelay attempt calls lastError log)
     = Throws (Thrown_error e))"
proof (induction operation String maxR baseDelay attempt calls lastError log
        rule: retryAsync_loop.induct)
  case (1 operation String maxR baseDelay attempt calls lastError log)
  let ?run = "retryAsync_loop operation String maxR baseDelay attempt calls lastError log"
  from "1.prems"(1) obtain x where x: "operation calls = Throws x" by blast
  define err where
    "err = (case x of Thrown_error e \<Rightarrow> e | Thrown_value v \<Rightarrow> JsError (String v))"
  note le = "1.prems"(2)
  show ?case
  proof (cases "int attempt = maxR")
    case True
    then have "?run =
        \<lparr> final = Throws (Thrown_error err), invocations = calls + 1,
          events = log @ [Invoked calls] \<rparr>"
      using le x by (subst retryAsync_loop.simps) (simp add: err_def)
    moreover have "nat maxR = attempt" using True by simp
    ultimately show ?thesis by simp
  next
    case False
    have step: "?run = retryAsync_loop operation String maxR baseDelay (attempt + 1)
        (calls + 1) (Some err)
        (log @ [Invoked calls, Slept (js_times baseDelay (Math_pow2 attempt))])"
      using le x False by (subst retryAsync_loop.simps) (simp add: err_def Let_def)
    have le': "int (attempt + 1) \<le> maxR" using le False by simp
    have lt: "attempt < nat maxR" using le False by linarith
    from "1.IH" [OF le x err_def False "1.prems"(1) le']
    show ?thesis using lt by (simp add: step)
  qed
qed

lemma retryAsync_always_fails:
  assumes "\<And>i. \<exists>x. operation i = Throws x" and "0 \<le> n"
  shows "invocations (retryAsync operation String (Some n) (Some b)) = nat n + 1"
  using retryAsync_loop_always_fails [of operation 0 n String b 0 None "[]", OF assms(1)]
    assms(2)
  unfolding retryAsync_def by simp

lemma handleRetryStrategy_nonzero:
  "maxRetries cfg = Some n \<Longrightarrow> n \<noteq> 0 \<Longrightarrow>
   shouldRetry (snd (handleRetryStrategy cfg error currentCount))
     = Some (int currentCount < n)"
  by (simp add: handleRetryStrategy_def Let_def)

lemma schedule_1000_3:
  "backoff_schedule 1000 3 =
     [Invoked 0, Slept (Finite 1000), Invoked 1, Slept (Finite 2000),
      Invoked 2, Slept (Finite 4000), Invoked 3]"
  by code_simp

lemma runSafely_loop_invocations:
  "attempts + 1 \<le> invocations (runSafely_loop cfg wrapForeign operation fallbackValue attempts log)"
proof (induction cfg wrapForeign operation fallbackValue attempts log
        rule: runSafely_loop.induct)
  case (1 cfg wrapForeign operation fallbackValue attempts log)
  show ?case
  proof (cases "operation attempts")
    case (Returns v)
    then show ?thesis by (subst runSafely_loop.simps) simp
  next
    case (Throws x)
    show ?thesis
    proof (cases "shouldRetry (snd (resolveRetry cfg (normalizeError wrapForeign x) attempts))
        = Some True")
      case True
      from "1.IH" [OF Throws True] Throws True
      show ?thesis by (subst runSafely_loop.simps) simp
    next
      case False
      with Throws show ?thesis by (subst runSafely_loop.simps) simp
    qed
  qed
qed

subsection \<open>Construction\<close>

text \<open>
  C10. Every Network-kind record has \<^verbatim>\<open>recoverable = true\<close>: the
  \<^verbatim>\<open>NetworkError\<close> constructor has no \<^verbatim>\<open>recoverable\<close> parameter and passes
  \<^verbatim>\<open>true\<close> to its parent, so whatever the arguments of the call the record is
  recoverable, and no call of any constructor yields a record of class
  \<^verbatim>\<open>NetworkError\<close> that is not.
\<close>

theorem network_error_always_recoverable:
  "recoverable (NetworkError ev msg status_arg url_arg code_arg) \<and>
   (cls (construct ev call) = NetworkError_class \<longrightarrow> recoverable (construct ev call))"
  by (cases call) (simp_all add: constructor_defs)

theorem network_error_always_recoverable_witness:
  "cls (construct \<lparr>now = ''2025-01-01T00:00:00.000Z'', trace = ''''\<rparr>
          (New_NetworkError ''Request timeout'' (Some 408) (Some ''/api/plugin-data'') None))
     = NetworkError_class \<and>
   recoverable (construct \<lparr>now = ''2025-01-01T00:00:00.000Z'', trace = ''''\<rparr>
          (New_NetworkError ''Request timeout'' (Some 408) (Some ''/api/plugin-data'') None))"
  using network_error_always_recoverable
    [of "\<lparr>now = ''2025-01-01T00:00:00.000Z'', trace = ''''\<rparr>" "''Request timeout''"
        "Some 408" "Some ''/api/plugin-data''" None
        "New_NetworkError ''Request timeout'' (Some 408) (Some ''/api/plugin-data'') None"]
  by (simp add: constructor_defs)

text \<open>
  C7, as amended. A record built by any constructor carries the code the caller passed,
  or the default of its class when the caller passed none; the defaults are non-empty, so
  the code is non-empty unless the caller passed the empty string. Its timestamp is the
  time of construction. It is non-recoverable only when it is a Validation record or the
  caller passed \<^verbatim>\<open>recoverable = false\<close>.
\<close>

theorem constructed_record_invariant:
  "code (construct ev call) =
     (case code_arg_of call of None \<Rightarrow> default_code (class_of call) | Some c \<Rightarrow> c) \<and>
   default_code (class_of call) \<noteq> '''' \<and>
   (code_arg_of call \<noteq> Some '''' \<longrightarrow> code (construct ev call) \<noteq> '''') \<and>
   timestamp (construct ev call) = now ev \<and>
   (\<not> recoverable (construct ev call) \<longrightarrow>
      class_of call = ValidationError_class \<or> recoverable_arg_of call = Some False)"
  by (cases call) (auto simp add: constructor_defs split: option.splits)

theorem constructed_record_invariant_witness:
  "code_arg_of (New_ValidationError ''Invalid email format'' (Some ''email'')
       (JStr ''user@invalid'') None) \<noteq> Some '''' \<and>
   \<not> recoverable (construct \<lparr>now = ''2025-01-01T00:00:00.000Z'', trace = ''''\<rparr>
       (New_ValidationError ''Invalid email format'' (Some ''email'')
          (JStr ''user@invalid'') None)) \<and>
   code (construct \<lparr>now = ''2025-01-01T00:00:00.000Z'', trace = ''''\<rparr>
       (New_ValidationError ''Invalid email format'' (Some ''email'')
          (JStr ''user@invalid'') None)) = ''VALIDATION_ERROR'' \<and>
   timestamp (construct \<lparr>now = ''2025-01-01T00:00:00.000Z'', trace = ''''\<rparr>
       (New_ValidationError ''Invalid email format'' (Some ''email'')
          (JStr ''user@invalid'') None)) = ''2025-01-01T00:00:00.000Z'' \<and>
   class_of (New_ValidationError ''Invalid email format'' (Some ''email'')
       (JStr ''user@invalid'') None) = ValidationError_class"
  using constructed_record_invariant
    [of "\<lparr>now = ''2025-01-01T00:00:00.000Z'', trace = ''''\<rparr>"
        "New_ValidationError ''Invalid email format'' (Some ''email'')
           (JStr ''user@invalid'') None"]
  by (simp add: constructor_defs)

text \<open>
  C7 as stated fails: a caller may pass the empty string as the code, and the constructor
  stores it.
\<close>

theorem empty_code_counterexample:
  "code (construct \<lparr>now = ''2025-01-01T00:00:00.000Z'', trace = ''''\<rparr>
      (New_PluginError ''Operation failed'' (Some '''') JUndefined None)) = ''''"
  by (simp add: constructor_defs)

subsection \<open>Serialisation\<close>

text \<open>
  C5, as amended. The dump of a record of any class holds the seven fields of the base
  class (name, message, code, details, timestamp, recoverable, stack), each readable under
  its own name. The fields a Validation record (field, value) and a Network record (status,
  url) add are in the dump through \<^verbatim>\<open>details\<close>, so that a record built by the
  \<^verbatim>\<open>PluginError\<close>, \<^verbatim>\<open>ValidationError\<close> or \<^verbatim>\<open>NetworkError\<close>
  constructor is determined by its dump.
\<close>

theorem toJSON_dump:
  "get_prop (toJSON e) ''name'' = Some (JStr (name e)) \<and>
   get_prop (toJSON e) ''message'' = Some (JStr (message e)) \<and>
   get_prop (toJSON e) ''code'' = Some (JStr (code e)) \<and>
   get_prop (toJSON e) ''details'' = Some (details e) \<and>
   get_prop (toJSON e) ''timestamp'' = Some (JStr (timestamp e)) \<and>
   get_prop (toJSON e) ''recoverable'' = Some (JBool (recoverable e)) \<and>
   get_prop (toJSON e) ''stack'' = Some (JStr (stack e)) \<and>
   (class_of c1 \<in> {PluginError_class, ValidationError_class, NetworkError_class} \<and>
    class_of c2 \<in> {PluginError_class, ValidationError_class, NetworkError_class} \<and>
    toJSON (construct ev1 c1) = toJSON (construct ev2 c2)
      \<longrightarrow> construct ev1 c1 = construct ev2 c2)"
  using toJSON_fields [of e] toJSON_inject [of c1 c2 ev1 ev2] by blast

theorem toJSON_dump_witness:
  "get_prop (toJSON (construct \<lparr>now = ''2025-01-01T00:00:00.000Z'', trace = ''''\<rparr>
      (New_NetworkError ''Request timeout'' (Some 408) (Some ''/api/plugin-data'') None)))
     ''details''
   = Some (JObj [(''status'', JNum 408), (''url'', JStr ''/api/plugin-data'')]) \<and>
   class_of (New_NetworkError ''Request timeout'' (Some 408) (Some ''/api/plugin-data'') None)
     \<in> {PluginError_class, ValidationError_class, NetworkError_class} \<and>
   construct \<lparr>now = ''2025-01-01T00:00:00.000Z'', trace = ''''\<rparr>
      (New_NetworkError ''Request timeout'' (Some 408) (Some ''/api/plugin-data'') None)
   = construct \<lparr>now = ''2025-01-01T00:00:00.000Z'', trace = ''''\<rparr>
      (New_NetworkError ''Request timeout'' (Some 408) (Some ''/api/plugin-data'') None)"
  using toJSON_dump
    [of "construct \<lparr>now = ''2025-01-01T00:00:00.000Z'', trace = ''''\<rparr>
           (New_NetworkError ''Request timeout'' (Some 408) (Some ''/api/plugin-data'') None)"
        "New_NetworkError ''Request timeout'' (Some 408) (Some ''/api/plugin-data'') None"
        "New_NetworkError ''Request timeout'' (Some 408) (Some ''/api/plugin-data'') None"
        "\<lparr>now = ''2025-01-01T00:00:00.000Z'', trace = ''''\<rparr>"
        "\<lparr>now = ''2025-01-01T00:00:00.000Z'', trace = ''''\<rparr>"]
  by (simp add: constructor_defs)

text \<open>
  C5 as stated fails: \<^verbatim>\<open>toJSON\<close> does not dump the \<^verbatim>\<open>service\<close> field of a
  \<^verbatim>\<open>ServiceError\<close>. Two records that differ in their service have the same dump.
\<close>

theorem toJSON_loses_service_counterexample:
  "toJSON (construct \<lparr>now = ''2025-01-01T00:00:00.000Z'', trace = ''''\<rparr>
      (New_ServiceError ''API service unavailable'' ''api'' None JUndefined None))
   = toJSON (construct \<lparr>now = ''2025-01-01T00:00:00.000Z'', trace = ''''\<rparr>
      (New_ServiceError ''API service unavailable'' ''settings'' None JUndefined None)) \<and>
   service (construct \<lparr>now = ''2025-01-01T00:00:00.000Z'', trace = ''''\<rparr>
      (New_ServiceError ''API service unavailable'' ''api'' None JUndefined None))
   \<noteq> service (construct \<lparr>now = ''2025-01-01T00:00:00.000Z'', trace = ''''\<rparr>
      (New_ServiceError ''API service unavailable'' ''settings'' None JUndefined None))"
  by (simp add: constructor_defs toJSON_def)

subsection \<open>Retry\<close>

text \<open>
  C1. A Validation error is never retried under the Retry strategy. The record the
  \<^verbatim>\<open>ValidationError\<close> constructor builds has \<^verbatim>\<open>recoverable = false\<close>, so
  the resolver short-circuits straight to unhandled at every attempt count, and the wrapper
  invokes an operation that raises a Validation error exactly once: it returns the fallback
  value when there is one and re-raises the error when not. The flag is what decides: an
  operation that raises a recoverable error is invoked again under the same configuration.
\<close>

theorem validation_error_never_retried:
  "resolveRetry cfg (ValidationError ev msg field_arg value_arg code_arg) attempts
     = ([], \<lparr>handled = False, shouldRetry = Some False, result = None\<rparr>) \<and>
   (operation 0 = Throws (Thrown_error (PluginErr
        (ValidationError ev msg field_arg value_arg code_arg))) \<longrightarrow>
      invocations (runSafely cfg wrapForeign operation fallbackValue) = 1 \<and>
      events (runSafely cfg wrapForeign operation fallbackValue) = [Invoked 0] \<and>
      final (runSafely cfg wrapForeign operation fallbackValue)
        = (case fallbackValue of
             Some v \<Rightarrow> Returns v
           | None \<Rightarrow> Throws (Thrown_error (PluginErr
                      (ValidationError ev msg field_arg value_arg code_arg))))) \<and>
   (operation' 0 = Throws (Thrown_error (PluginErr e)) \<and> recoverable e \<and>
    maxRetries cfg = Some n \<and> 0 < n \<longrightarrow>
      2 \<le> invocations (runSafely cfg wrapForeign operation' fallbackValue))"
proof -
  let ?v = "ValidationError ev msg field_arg value_arg code_arg"
  have nonrec: "\<not> recoverable ?v"
    by (simp add: constructor_defs)
  then have resolver: "resolveRetry cfg ?v attempts
      = ([], \<lparr>handled = False, shouldRetry = Some False, result = None\<rparr>)" for attempts
    by (simp add: resolveRetry_def)
  have once: "operation 0 = Throws (Thrown_error (PluginErr ?v)) \<longrightarrow>
      runSafely cfg wrapForeign operation fallbackValue
        = \<lparr> final = (case fallbackValue of
                       Some v \<Rightarrow> Returns v
                     | None \<Rightarrow> Throws (Thrown_error (PluginErr ?v))),
            invocations = 1, events = [Invoked 0] \<rparr>"
    unfolding runSafely_def
    by (subst runSafely_loop.simps) (simp add: resolver split: option.splits)
  have again: "operation' 0 = Throws (Thrown_error (PluginErr e)) \<and> recoverable e \<and>
    maxRetries cfg = Some n \<and> 0 < n \<longrightarrow>
      2 \<le> invocations (runSafely cfg wrapForeign operation' fallbackValue)"
  proof
    assume h: "operation' 0 = Throws (Thrown_error (PluginErr e)) \<and> recoverable e \<and>
      maxRetries cfg = Some n \<and> 0 < n"
    then have retry: "shouldRetry (snd (resolveRetry cfg e 0)) = Some True"
      by (simp add: resolveRetry_def handleRetryStrategy_def Let_def)
    have "runSafely cfg wrapForeign operation' fallbackValue
        = runSafely_loop cfg wrapForeign operation' fallbackValue 1
            (Invoked 0 # map Slept (fst (resolveRetry cfg e 0)))"
      unfolding runSafely_def using h retry
      by (subst runSafely_loop.simps) simp
    then show "2 \<le> invocations (runSafely cfg wrapForeign operation' fallbackValue)"
      using runSafely_loop_invocations [of 1 cfg wrapForeign operation' fallbackValue
          "Invoked 0 # map Slept (fst (resolveRetry cfg e 0))"]
      by simp
  qed
  from resolver [of attempts] once again show ?thesis by simp
qed

text \<open>
  An operation that fails once and would succeed at its second invocation: with a
  Validation error it is invoked once and the error is re-raised; with a Network error it
  is invoked again.
\<close>

theorem validation_error_never_retried_witness:
  "invocations (runSafely
      \<lparr>maxRetries = Some 3, retryDelay = Some 1000, enableLogging = None,
        enableReporting = None, userNotification = None, fallbackValues = None\<rparr>
      (\<lambda>x. PluginError \<lparr>now = ''2025-01-01T00:00:00.000Z'', trace = ''''\<rparr>
             ''Unknown error'' None JUndefined None)
      (\<lambda>i. if i = 0
            then Throws (Thrown_error (PluginErr
              (ValidationError \<lparr>now = ''2025-01-01T00:00:00.000Z'', trace = ''''\<rparr>
                 ''Invalid email format'' (Some ''email'') (JStr ''user@invalid'') None)))
            else Returns (JStr ''ok''))
      None) = 1 \<and>
   final (runSafely
      \<lparr>maxRetries = Some 3, retryDelay = Some 1000, enableLogging = None,
        enableReporting = None, userNotification = None, fallbackValues = None\<rparr>
      (\<lambda>x. PluginError \<lparr>now = ''2025-01-01T00:00:00.000Z'', trace = ''''\<rparr>
             ''Unknown error'' None JUndefined None)
      (\<lambda>i. if i = 0
            then Throws (Thrown_error (PluginErr
              (ValidationError \<lparr>now = ''2025-01-01T00:00:00.000Z'', trace = ''''\<rparr>
                 ''Invalid email format'' (Some ''email'') (JStr ''user@invalid'') None)))
            else Returns (JStr ''ok''))
      None)
     = Throws (Thrown_error (PluginErr
         (ValidationError \<lparr>now = ''2025-01-01T00:00:00.000Z'', trace = ''''\<rparr>
            ''Invalid email format'' (Some ''email'') (JStr ''user@invalid'') None))) \<and>
   2 \<le> invocations (runSafely
      \<lparr>maxRetries = Some 3, retryDelay = Some 1000, enableLogging = None,
        enableReporting = None, userNotification = None, fallbackValues = None\<rparr>
      (\<lambda>x. PluginError \<lparr>now = ''2025-01-01T00:00:00.000Z'', trace = ''''\<rparr>
             ''Unknown error'' None JUndefined None)
      (\<lambda>i. if i = 0
            then Throws (Thrown_error (PluginErr
              (NetworkError \<lparr>now = ''2025-01-01T00:00:00.000Z'', trace = ''''\<rparr>
                 ''Request timeout'' (Some 408) (Some ''/api/plugin-data'') None)))
            else Returns (JStr ''ok''))
      None)"
proof -
  let ?ev = "\<lparr>now = ''2025-01-01T00:00:00.000Z'', trace = ''''\<rparr>"
  let ?cfg = "\<lparr>maxRetries = Some 3, retryDelay = Some 1000, enableLogging = None,
        enableReporting = None, userNotification = None, fallbackValues = None\<rparr>"
  let ?v = "ValidationError ?ev ''Invalid email format'' (Some ''email'') (JStr ''user@invalid'') None"
  let ?n = "NetworkError ?ev ''Request timeout'' (Some 408) (Some ''/api/plugin-data'') None"
  let ?op = "\<lambda>i::nat. if i = 0 then Throws (Thrown_error (PluginErr ?v)) else Returns (JStr ''ok'')"
  let ?op' = "\<lambda>i::nat. if i = 0 then Throws (Thrown_error (PluginErr ?n)) else Returns (JStr ''ok'')"
  have h1: "?op 0 = Throws (Thrown_error (PluginErr ?v))" by simp
  have h2: "?op' 0 = Throws (Thrown_error (PluginErr ?n)) \<and> recoverable ?n \<and>
      maxRetries ?cfg = Some 3 \<and> (0 :: int) < 3"
    by (simp add: constructor_defs)
  from validation_error_never_retried [where cfg = ?cfg and ev = ?ev
      and msg = "''Invalid email format''" and field_arg = "Some ''email''"
      and value_arg = "JStr ''user@invalid''" and code_arg = None and attempts = 0
      and operation = ?op and operation' = ?op' and e = ?n and n = 3
      and wrapForeign = "\<lambda>x. PluginError ?ev ''Unknown error'' None JUndefined None"
      and fallbackValue = None] h1 h2
  show ?thesis by simp
qed

text \<open>
  C2, as amended. With \<^verbatim>\<open>maxRetries = n\<close> configured, whenever the zero-indexed
  attempt count is below \<open>n\<close> the resolver asks for a retry. When \<^verbatim>\<open>retryDelay\<close>
  is unset or 0 it does not wait; when it is \<open>d \<noteq> 0\<close> it waits once, for
  \<open>d * 2^attempts\<close> milliseconds as long as that product is within the range of the
  doubles (\<open>attempts < 1024\<close> and \<open>|d| * 2^attempts < 2^1024\<close>). In
  \<^verbatim>\<open>retryAsync\<close>, when the first \<open>k\<close> invocations fail and \<open>k \<le> maxRetries\<close>,
  the run starts with the backoff schedule up to the \<open>k\<close>-th retry: each retry
  \<open>j = 1, \<dots>, k\<close> takes place, right after a sleep of \<open>baseDelay * 2^(j-1)\<close>
  milliseconds, within the same range.
\<close>

theorem retry_backoff_delay:
  "(maxRetries cfg = Some n \<and> int attempts < n \<longrightarrow>
      shouldRetry (snd (handleRetryStrategy cfg error attempts)) = Some True \<and>
      (retryDelay cfg = None \<or> retryDelay cfg = Some 0 \<longrightarrow>
         fst (handleRetryStrategy cfg error attempts) = []) \<and>
      (retryDelay cfg = Some d \<and> d \<noteq> 0 \<and> attempts < 1024 \<and> \<bar>d\<bar> * 2 ^ attempts < 2 ^ 1024 \<longrightarrow>
         fst (handleRetryStrategy cfg error attempts) = [Finite (d * 2 ^ attempts)])) \<and>
   (1 \<le> k \<and> int k \<le> maxR \<and> (\<forall>i<k. \<exists>x. operation i = Throws x) \<and>
    k \<le> 1024 \<and> \<bar>b\<bar> * 2 ^ (k - 1) < 2 ^ 1024 \<longrightarrow>
      (\<exists>rest. events (retryAsync operation String (Some maxR) (Some b))
         = backoff_schedule b k @ rest))"
proof -
  have resolver: "maxRetries cfg = Some n \<and> int attempts < n \<longrightarrow>
      shouldRetry (snd (handleRetryStrategy cfg error attempts)) = Some True \<and>
      (retryDelay cfg = None \<or> retryDelay cfg = Some 0 \<longrightarrow>
         fst (handleRetryStrategy cfg error attempts) = []) \<and>
      (retryDelay cfg = Some d \<and> d \<noteq> 0 \<and> attempts < 1024 \<and> \<bar>d\<bar> * 2 ^ attempts < 2 ^ 1024 \<longrightarrow>
         fst (handleRetryStrategy cfg error attempts) = [Finite (d * 2 ^ attempts)])"
    using js_times_exact [of attempts d]
    by (auto simp add: handleRetryStrategy_def Let_def)
  have loop: "1 \<le> k \<and> int k \<le> maxR \<and> (\<forall>i<k. \<exists>x. operation i = Throws x) \<and>
    k \<le> 1024 \<and> \<bar>b\<bar> * 2 ^ (k - 1) < 2 ^ 1024 \<longrightarrow>
      (\<exists>rest. events (retryAsync operation String (Some maxR) (Some b))
         = backoff_schedule b k @ rest)"
  proof
    assume h: "1 \<le> k \<and> int k \<le> maxR \<and> (\<forall>i<k. \<exists>x. operation i = Throws x) \<and>
      k \<le> 1024 \<and> \<bar>b\<bar> * 2 ^ (k - 1) < 2 ^ 1024"
    then have fails: "\<And>i. i < k \<Longrightarrow> \<exists>x. operation i = Throws x" by blast
    from retryAsync_reaches_retry [of k operation maxR String b, OF fails] h
    obtain rest where "events (retryAsync operation String (Some maxR) (Some b))
      = concat (map (\<lambda>j. [Invoked j, Slept (js_times b (Math_pow2 j))]) [0 ..< k])
          @ Invoked k # rest"
      by blast
    then have "events (retryAsync operation String (Some maxR) (Some b))
      = (concat (map (\<lambda>j. [Invoked j, Slept (js_times b (Math_pow2 j))]) [0 ..< k])
          @ [Invoked k]) @ rest"
      by simp
    then have "events (retryAsync operation String (Some maxR) (Some b))
      = backoff_schedule b k @ rest"
      using schedule_exact [of k b] h by simp
    then show "\<exists>rest. events (retryAsync operation String (Some maxR) (Some b))
         = backoff_schedule b k @ rest" ..
  qed
  from resolver loop show ?thesis by blast
qed

theorem retry_backoff_delay_witness:
  "shouldRetry (snd (handleRetryStrategy
      \<lparr>maxRetries = Some 3, retryDelay = Some 1000, enableLogging = None,
        enableReporting = None, userNotification = None, fallbackValues = None\<rparr>
      (JsError ''Always fails'') 2)) = Some True \<and>
   fst (handleRetryStrategy
      \<lparr>maxRetries = Some 3, retryDelay = Some 1000, enableLogging = None,
        enableReporting = None, userNotification = None, fallbackValues = None\<rparr>
      (JsError ''Always fails'') 2) = [Finite 4000] \<and>
   fst (handleRetryStrategy
      \<lparr>maxRetries = Some 3, retryDelay = None, enableLogging = None,
        enableReporting = None, userNotification = None, fallbackValues = None\<rparr>
      (JsError ''Always fails'') 2) = [] \<and>
   (\<exists>rest. events (retryAsync
        (\<lambda>i. Throws (Thrown_error (JsError ''Always fails'')) :: jsval outcome)
        (\<lambda>v. ''thrown'') (Some 3) (Some 1000))
      = [Invoked 0, Slept (Finite 1000), Invoked 1, Slept (Finite 2000),
         Invoked 2, Slept (Finite 4000), Invoked 3] @ rest)"
proof -
  let ?cfg = "\<lparr>maxRetries = Some 3, retryDelay = Some 1000, enableLogging = None,
        enableReporting = None, userNotification = None, fallbackValues = None\<rparr>"
  let ?cfg' = "\<lparr>maxRetries = Some 3, retryDelay = None, enableLogging = None,
        enableReporting = None, userNotification = None, fallbackValues = None\<rparr>"
  let ?op = "\<lambda>i. Throws (Thrown_error (JsError ''Always fails'')) :: jsval outcome"
  have range: "(2 :: nat) < 1024 \<and> \<bar>1000 :: int\<bar> * 2 ^ 2 < 2 ^ 1024" by simp
  have range': "(3 :: nat) \<le> 1024 \<and> \<bar>1000 :: int\<bar> * 2 ^ (3 - 1) < 2 ^ 1024" by simp
  have fails: "\<forall>i<3::nat. \<exists>x. ?op i = Throws x" by simp
  note A = retry_backoff_delay [where cfg = ?cfg and n = 3 and attempts = 2
      and error = "JsError ''Always fails''" and d = 1000 and k = 3 and maxR = 3
      and operation = ?op and String = "\<lambda>v. ''thrown''" and b = 1000]
  note B = retry_backoff_delay [where cfg = ?cfg' and n = 3 and attempts = 2
      and error = "JsError ''Always fails''" and d = 1000 and k = 3 and maxR = 3
      and operation = ?op and String = "\<lambda>v. ''thrown''" and b = 1000]
  have a: "shouldRetry (snd (handleRetryStrategy ?cfg (JsError ''Always fails'') 2)) = Some True"
    and b: "fst (handleRetryStrategy ?cfg (JsError ''Always fails'') 2) = [Finite (1000 * 2 ^ 2)]"
    using A range by simp_all
  have c: "fst (handleRetryStrategy ?cfg' (JsError ''Always fails'') 2) = []"
    using B by simp
  have d: "\<exists>rest. events (retryAsync ?op (\<lambda>v. ''thrown'') (Some 3) (Some 1000))
      = backoff_schedule 1000 3 @ rest"
    using A range' fails by simp
  from a b c d show ?thesis by (simp add: schedule_1000_3)
qed

text \<open>
  C2 as stated fails beyond the range of the doubles: with \<^verbatim>\<open>maxRetries = 2000\<close> and
  \<^verbatim>\<open>retryDelay = 1\<close>, at attempt count 1024 the resolver asks for a retry and waits
  \<^verbatim>\<open>1 * Math.pow(2, 1024)\<close>, which is \<^verbatim>\<open>Infinity\<close> and not the number
  \<open>2^1024\<close>.
\<close>

theorem retry_backoff_overflow_counterexample:
  "shouldRetry (snd (handleRetryStrategy
      \<lparr>maxRetries = Some 2000, retryDelay = Some 1, enableLogging = None,
        enableReporting = None, userNotification = None, fallbackValues = None\<rparr>
      (JsError ''Always fails'') 1024)) = Some True \<and>
   fst (handleRetryStrategy
      \<lparr>maxRetries = Some 2000, retryDelay = Some 1, enableLogging = None,
        enableReporting = None, userNotification = None, fallbackValues = None\<rparr>
      (JsError ''Always fails'') 1024) = [PosInfinity] \<and>
   fst (handleRetryStrategy
      \<lparr>maxRetries = Some 2000, retryDelay = Some 1, enableLogging = None,
        enableReporting = None, userNotification = None, fallbackValues = None\<rparr>
      (JsError ''Always fails'') 1024) \<noteq> [Finite (1 * 2 ^ 1024)]"
  by (simp add: handleRetryStrategy_def Math_pow2_def)

text \<open>
  C3 holds of \<^verbatim>\<open>retryAsync\<close> for every \<open>n \<ge> 0\<close> (\<open>retryAsync_always_fails\<close>)
  and of the resolver for every \<open>n \<ge> 1\<close> (\<open>handleRetryStrategy_nonzero\<close>). At
  \<^verbatim>\<open>maxRetries = 0\<close> the two paths part: \<^verbatim>\<open>retryAsync\<close> invokes the failing
  operation once, while \<^verbatim>\<open>handleRetryStrategy\<close> reads the configured 0 as unset
  (\<^verbatim>\<open>this.config.maxRetries || 3\<close>) and asks for a retry after the first, second
  and third failure, giving up only at the fourth.
\<close>

theorem retry_zero_maxRetries_divergence:
  "invocations (retryAsync (\<lambda>i. Throws (Thrown_error (JsError ''Always fails''))) String
       (Some 0) (Some 1000) :: jsval retry_trace) = 1 \<and>
   map (handleRetryStrategy
      \<lparr>maxRetries = Some 0, retryDelay = Some 1000, enableLogging = None,
        enableReporting = None, userNotification = None, fallbackValues = None\<rparr>
      (JsError ''Always fails'')) [0, 1, 2, 3]
    = [([Finite 1000], \<lparr>handled = True, shouldRetry = Some True, result = None\<rparr>),
       ([Finite 2000], \<lparr>handled = True, shouldRetry = Some True, result = None\<rparr>),
       ([Finite 4000], \<lparr>handled = True, shouldRetry = Some True, result = None\<rparr>),
       ([], \<lparr>handled = False, shouldRetry = Some False, result = None\<rparr>)]"
  by (simp add: handleRetryStrategy_def retryAsync_def retryAsync_loop.simps Math_pow2_def)

subsection \<open>Fallback\<close>

text \<open>
  C4. Under the Fallback strategy the error is always marked handled, and for every error
  the substitute is looked up under the lower-cased kind name of that error
  (\<^verbatim>\<open>"networkerror"\<close> for a Network error, \<^verbatim>\<open>"validationerror"\<close> for a
  Validation error, and so on; \<^verbatim>\<open>"typeerror"\<close> for a \<^verbatim>\<open>TypeError\<close> from
  outside the hierarchy): a truthy value configured under that key is the result; when
  nothing is configured under it the result is the generic default of
  \<^verbatim>\<open>getDefaultFallback\<close>; and no other entry of the table matters.
\<close>

theorem fallback_keyed_by_class_name:
  "handled (handleFallbackStrategy cfg getDefaultFallback error) \<and>
   kind_key (PluginErr (NetworkError ev msg status_arg url_arg code_arg)) = ''networkerror'' \<and>
   kind_key (OtherError ''TypeError'' msg) = ''typeerror'' \<and>
   (fallbackValues cfg = Some tbl \<and> tbl (kind_key error) = Some v \<and> truthy v
      \<longrightarrow> result (handleFallbackStrategy cfg getDefaultFallback error) = Some v) \<and>
   (fallbackValues cfg = None \<or> (fallbackValues cfg = Some tbl \<and> tbl (kind_key error) = None)
      \<longrightarrow> result (handleFallbackStrategy cfg getDefaultFallback error)
            = Some (getDefaultFallback error)) \<and>
   (tbl (kind_key error) = tbl' (kind_key error)
      \<longrightarrow> handleFallbackStrategy (cfg\<lparr>fallbackValues := Some tbl\<rparr>) getDefaultFallback error
            = handleFallbackStrategy (cfg\<lparr>fallbackValues := Some tbl'\<rparr>)
                getDefaultFallback error)"
proof -
  have net: "kind_key (PluginErr (NetworkError ev msg status_arg url_arg code_arg))
      = ''networkerror''"
    by (simp add: constructor_defs)
  have other: "kind_key (OtherError ''TypeError'' msg) = ''typeerror''"
    by (simp add: lower_class_names)
  have res: "result (handleFallbackStrategy c getDefaultFallback error)
      = Some (js_or (fallback_lookup c (kind_key error)) (getDefaultFallback error))" for c
    by (simp add: handleFallbackStrategy_def Let_def handler_key)
  have hd: "handled (handleFallbackStrategy cfg getDefaultFallback error)"
    by (simp add: handleFallbackStrategy_def Let_def)
  have same: "tbl (kind_key error) = tbl' (kind_key error)
      \<longrightarrow> handleFallbackStrategy (cfg\<lparr>fallbackValues := Some tbl\<rparr>) getDefaultFallback error
            = handleFallbackStrategy (cfg\<lparr>fallbackValues := Some tbl'\<rparr>)
                getDefaultFallback error"
    by (simp add: handleFallbackStrategy_def Let_def handler_key fallback_lookup_def)
  show ?thesis
    using net other hd same
    by (auto simp add: res fallback_lookup_def js_or_def)
qed

theorem fallback_keyed_by_class_name_witness:
  "result (handleFallbackStrategy
      \<lparr>maxRetries = Some 3, retryDelay = Some 1000, enableLogging = None,
        enableReporting = None, userNotification = None,
        fallbackValues = Some [''networkerror'' \<mapsto> JArr [],
                               ''validationerror'' \<mapsto> JStr ''invalid'']\<rparr>
      (\<lambda>e. JNull)
      (PluginErr (ValidationError \<lparr>now = ''2025-01-01T00:00:00.000Z'', trace = ''''\<rparr>
         ''Invalid email format'' (Some ''email'') (JStr ''user@invalid'') None)))
     = Some (JStr ''invalid'') \<and>
   result (handleFallbackStrategy
      \<lparr>maxRetries = Some 3, retryDelay = Some 1000, enableLogging = None,
        enableReporting = None, userNotification = None,
        fallbackValues = Some [''networkerror'' \<mapsto> JArr [],
                               ''validationerror'' \<mapsto> JStr ''invalid'']\<rparr>
      (\<lambda>e. JNull)
      (PluginErr (NetworkError \<lparr>now = ''2025-01-01T00:00:00.000Z'', trace = ''''\<rparr>
         ''Request timeout'' (Some 408) (Some ''/api/plugin-data'') None)))
     = Some (JArr []) \<and>
   result (handleFallbackStrategy
      \<lparr>maxRetries = Some 3, retryDelay = Some 1000, enableLogging = None,
        enableReporting = None, userNotification = None,
        fallbackValues = Some [''networkerror'' \<mapsto> JArr [],
                               ''validationerror'' \<mapsto> JStr ''invalid'']\<rparr>
      (\<lambda>e. JObj [])
      (OtherError ''TypeError'' ''x is not a function''))
     = Some (JObj []) \<and>
   handleFallbackStrategy
      \<lparr>maxRetries = Some 3, retryDelay = Some 1000, enableLogging = None,
        enableReporting = None, userNotification = None,
        fallbackValues = Some [''networkerror'' \<mapsto> JArr [],
                               ''validationerror'' \<mapsto> JStr ''invalid'']\<rparr>
      (\<lambda>e. JNull)
      (PluginErr (ValidationError \<lparr>now = ''2025-01-01T00:00:00.000Z'', trace = ''''\<rparr>
         ''Invalid email format'' (Some ''email'') (JStr ''user@invalid'') None))
     = handleFallbackStrategy
      \<lparr>maxRetries = Some 3, retryDelay = Some 1000, enableLogging = None,
        enableReporting = None, userNotification = None,
        fallbackValues = Some [''validationerror'' \<mapsto> JStr ''invalid'']\<rparr>
      (\<lambda>e. JNull)
      (PluginErr (ValidationError \<lparr>now = ''2025-01-01T00:00:00.000Z'', trace = ''''\<rparr>
         ''Invalid email format'' (Some ''email'') (JStr ''user@invalid'') None))"
proof -
  let ?ev = "\<lparr>now = ''2025-01-01T00:00:00.000Z'', trace = ''''\<rparr>"
  let ?validation = "PluginErr (ValidationError ?ev ''Invalid email format'' (Some ''email'')
      (JStr ''user@invalid'') None)"
  let ?network = "PluginErr (NetworkError ?ev ''Request timeout'' (Some 408)
      (Some ''/api/plugin-data'') None)"
  let ?other = "OtherError ''TypeError'' ''x is not a function''"
  let ?tbl = "[''networkerror'' \<mapsto> JArr [], ''validationerror'' \<mapsto> JStr ''invalid'']"
  let ?tbl' = "[''validationerror'' \<mapsto> JStr ''invalid'']"
  let ?cfg = "\<lparr>maxRetries = Some 3, retryDelay = Some 1000, enableLogging = None,
      enableReporting = None, userNotification = None, fallbackValues = Some ?tbl\<rparr>"
  have configured_v: "fallbackValues ?cfg = Some ?tbl \<and>
      ?tbl (kind_key ?validation) = Some (JStr ''invalid'') \<and> truthy (JStr ''invalid'')"
    by (simp add: constructor_defs lower_class_names)
  have configured_n: "fallbackValues ?cfg = Some ?tbl \<and>
      ?tbl (kind_key ?network) = Some (JArr []) \<and> truthy (JArr [])"
    by (simp add: constructor_defs lower_class_names)
  have absent: "fallbackValues ?cfg = None \<or>
      (fallbackValues ?cfg = Some ?tbl \<and> ?tbl (kind_key ?other) = None)"
    by (simp add: constructor_defs lower_class_names)
  have same: "?tbl (kind_key ?validation) = ?tbl' (kind_key ?validation)"
    by (simp add: constructor_defs lower_class_names)
  note V = fallback_keyed_by_class_name
      [where cfg = ?cfg and getDefaultFallback = "\<lambda>e. JNull" and error = ?validation
         and tbl = ?tbl and tbl' = ?tbl' and v = "JStr ''invalid''"]
  note N = fallback_keyed_by_class_name
      [where cfg = ?cfg and getDefaultFallback = "\<lambda>e. JNull" and error = ?network
         and tbl = ?tbl and tbl' = ?tbl and v = "JArr []"]
  note T = fallback_keyed_by_class_name
      [where cfg = ?cfg and getDefaultFallback = "\<lambda>e. JObj []" and error = ?other
         and tbl = ?tbl and tbl' = ?tbl and v = JNull]
  have r1: "result (handleFallbackStrategy ?cfg (\<lambda>e. JNull) ?validation)
      = Some (JStr ''invalid'')"
    using V configured_v by blast
  have r2: "result (handleFallbackStrategy ?cfg (\<lambda>e. JNull) ?network) = Some (JArr [])"
    using N configured_n by blast
  have r3: "result (handleFallbackStrategy ?cfg (\<lambda>e. JObj []) ?other) = Some (JObj [])"
    using T absent by blast
  have r4: "handleFallbackStrategy (?cfg\<lparr>fallbackValues := Some ?tbl\<rparr>) (\<lambda>e. JNull) ?validation
      = handleFallbackStrategy (?cfg\<lparr>fallbackValues := Some ?tbl'\<rparr>) (\<lambda>e. JNull) ?validation"
    using V same by blast
  from r1 r2 r3 r4 show ?thesis by simp
qed

text \<open>
  C9. When the value configured under the key of the error is falsy (\<^verbatim>\<open>null\<close>,
  \<^verbatim>\<open>false\<close>, \<^verbatim>\<open>0\<close> or the empty string), the Fallback strategy returns the
  generic default of \<^verbatim>\<open>getDefaultFallback\<close> and not the configured value: the two
  are combined with \<^verbatim>\<open>||\<close>.
\<close>

theorem fallback_falsy_uses_default:
  "fallbackValues cfg = Some tbl \<Longrightarrow>
   tbl (toLowerCase (constructor_name error)) = Some v \<Longrightarrow>
   v = JNull \<or> v = JBool False \<or> v = JNum 0 \<or> v = JStr '''' \<Longrightarrow>
   result (handleFallbackStrategy cfg getDefaultFallback error)
     = Some (getDefaultFallback error)"
  by (auto simp add: handleFallbackStrategy_def fallback_lookup_def js_or_def Let_def)

theorem fallback_falsy_uses_default_witness:
  "[''networkerror'' \<mapsto> JNull] (toLowerCase (constructor_name
      (PluginErr (NetworkError \<lparr>now = ''2025-01-01T00:00:00.000Z'', trace = ''''\<rparr>
         ''No data received from API'' (Some 204) (Some ''/api/plugin-template/data'') None))))
     = Some JNull \<and>
   result (handleFallbackStrategy
      \<lparr>maxRetries = Some 3, retryDelay = Some 1000, enableLogging = Some True,
        enableReporting = Some True, userNotification = None,
        fallbackValues = Some [''networkerror'' \<mapsto> JNull]\<rparr>
      (\<lambda>e. JObj [])
      (PluginErr (NetworkError \<lparr>now = ''2025-01-01T00:00:00.000Z'', trace = ''''\<rparr>
         ''No data received from API'' (Some 204) (Some ''/api/plugin-template/data'') None)))
   = Some (JObj [])"
  using fallback_falsy_uses_default
    [of "\<lparr>maxRetries = Some 3, retryDelay = Some 1000, enableLogging = Some True,
           enableReporting = Some True, userNotification = None,
           fallbackValues = Some [''networkerror'' \<mapsto> JNull]\<rparr>"
        "[''networkerror'' \<mapsto> JNull]"
        "PluginErr (NetworkError \<lparr>now = ''2025-01-01T00:00:00.000Z'', trace = ''''\<rparr>
           ''No data received from API'' (Some 204) (Some ''/api/plugin-template/data'') None)"
        JNull "\<lambda>e. JObj []"]
  by (simp add: constructor_defs lower_NetworkError)

subsection \<open>Validation\<close>

text \<open>
  C6. \<^verbatim>\<open>validate\<close> evaluates the rules in order: when the rules before a rule all
  return \<^verbatim>\<open>true\<close> and that rule rejects the value, a Validation error is raised that
  carries the field name and the offending value and has \<^verbatim>\<open>recoverable = false\<close>;
  its message is the one the rule returned, or the generic one when the rule returned
  \<^verbatim>\<open>false\<close>.
\<close>

theorem validate_first_failing_rule:
  "rules = passed @ rule # rest \<Longrightarrow>
   \<forall>r \<in> set passed. r v = Returns Rule_true \<Longrightarrow>
   rejects rule v \<Longrightarrow>
   validate ev generic v rules fieldName
     = Throws (Thrown_error (PluginErr
         (ValidationError ev (rejection_message generic rule v) (Some fieldName) v None))) \<and>
   cls (ValidationError ev (rejection_message generic rule v) (Some fieldName) v None)
     = ValidationError_class \<and>
   field (ValidationError ev (rejection_message generic rule v) (Some fieldName) v None)
     = Some fieldName \<and>
   val (ValidationError ev (rejection_message generic rule v) (Some fieldName) v None) = v \<and>
   \<not> recoverable (ValidationError ev (rejection_message generic rule v) (Some fieldName) v None)"
proof -
  assume rules: "rules = passed @ rule # rest"
    and passed: "\<forall>r \<in> set passed. r v = Returns Rule_true"
    and rej: "rejects rule v"
  have "validate ev generic v rules fieldName = validate ev generic v (rule # rest) fieldName"
    using validate_passed [OF passed] rules by simp
  also have "\<dots> = Throws (Thrown_error (PluginErr
         (ValidationError ev (rejection_message generic rule v) (Some fieldName) v None)))"
    using rej by (auto split: outcome.splits rule_result.splits)
  finally show ?thesis by (simp add: constructor_defs)
qed

text \<open>
  The scenario \<^verbatim>\<open>validate(-5, [v => v > 0 || "must be positive"], "age")\<close>, with a
  rule before it that accepts every value.
\<close>

theorem validate_first_failing_rule_witness:
  "validate \<lparr>now = ''2025-01-01T00:00:00.000Z'', trace = ''''\<rparr> ''Validation failed''
      (JNum (- 5))
      [\<lambda>v. Returns Rule_true,
       \<lambda>v. case v of
              JNum n \<Rightarrow> if n > 0 then Returns Rule_true
                        else Returns (Rule_message ''must be positive'')
            | _ \<Rightarrow> Returns (Rule_message ''must be positive'')]
      ''age''
   = Throws (Thrown_error (PluginErr
       (ValidationError \<lparr>now = ''2025-01-01T00:00:00.000Z'', trace = ''''\<rparr>
          ''must be positive'' (Some ''age'') (JNum (- 5)) None))) \<and>
   field (ValidationError \<lparr>now = ''2025-01-01T00:00:00.000Z'', trace = ''''\<rparr>
          ''must be positive'' (Some ''age'') (JNum (- 5)) None) = Some ''age'' \<and>
   val (ValidationError \<lparr>now = ''2025-01-01T00:00:00.000Z'', trace = ''''\<rparr>
          ''must be positive'' (Some ''age'') (JNum (- 5)) None) = JNum (- 5) \<and>
   \<not> recoverable (ValidationError \<lparr>now = ''2025-01-01T00:00:00.000Z'', trace = ''''\<rparr>
          ''must be positive'' (Some ''age'') (JNum (- 5)) None)"
  using validate_first_failing_rule
    [of "[\<lambda>v. Returns Rule_true,
          \<lambda>v. case v of
                 JNum n \<Rightarrow> if n > 0 then Returns Rule_true
                           else Returns (Rule_message ''must be positive'')
               | _ \<Rightarrow> Returns (Rule_message ''must be positive'')]"
        "[\<lambda>v. Returns Rule_true]"
        "\<lambda>v. case v of
                 JNum n \<Rightarrow> if n > 0 then Returns Rule_true
                           else Returns (Rule_message ''must be positive'')
               | _ \<Rightarrow> Returns (Rule_message ''must be positive'')"
        "[]" "JNum (- 5)"
        "\<lparr>now = ''2025-01-01T00:00:00.000Z'', trace = ''''\<rparr>" "''Validation failed''" "''age''"]
  by simp

subsection \<open>User messages\<close>

text \<open>
  C8. For every Network-kind error \<^verbatim>\<open>getUserMessage\<close> does not take its text from
  the technical message of the error: it returns the fixed text
  \<^verbatim>\<open>Network connection issue. Please try again.\<close>, so that two Network-kind errors
  that differ only in their message get the same user-facing string.
\<close>

theorem network_user_message_fixed:
  "instanceof e NetworkError_class \<Longrightarrow>
     getUserMessage (PluginErr e) = ''Network connection issue. Please try again.'' \<and>
     getUserMessage (PluginErr (e\<lparr>message := m\<rparr>)) = getUserMessage (PluginErr e)"
  using network_not_validation [of e] by (simp add: instanceof_def)

theorem network_user_message_fixed_witness:
  "instanceof (NetworkError \<lparr>now = ''2025-01-01T00:00:00.000Z'', trace = ''''\<rparr>
       ''XMLHttpRequest failed with status 500'' (Some 500) None None) NetworkError_class \<and>
   getUserMessage (PluginErr (NetworkError \<lparr>now = ''2025-01-01T00:00:00.000Z'', trace = ''''\<rparr>
       ''XMLHttpRequest failed with status 500'' (Some 500) None None))
     = ''Network connection issue. Please try again.'' \<and>
   getUserMessage (PluginErr ((NetworkError \<lparr>now = ''2025-01-01T00:00:00.000Z'', trace = ''''\<rparr>
       ''XMLHttpRequest failed with status 500'' (Some 500) None None)
         \<lparr>message := ''Request timeout''\<rparr>))
     = getUserMessage (PluginErr (NetworkError \<lparr>now = ''2025-01-01T00:00:00.000Z'', trace = ''''\<rparr>
       ''XMLHttpRequest failed with status 500'' (Some 500) None None))"
proof -
  have inst: "instanceof (NetworkError \<lparr>now = ''2025-01-01T00:00:00.000Z'', trace = ''''\<rparr>
       ''XMLHttpRequest failed with status 500'' (Some 500) None None) NetworkError_class"
    by (simp add: instanceof_def constructor_defs)
  from inst network_user_message_fixed [OF inst, of "''Request timeout''"]
  show ?thesis by blast
qed

end
